theory Spec2Isabelle
  imports Complex_Main
begin

section \<open>PyFME trimmer: the kinematic closure formulas\<close>

text \<open>
  The module \<^verbatim>\<open>pyfme/utils/trimmer.py\<close> computes with Python floats. Here a float is a
  real number: rounding, overflow and NaN are outside the model, except in the section
  on binary64 multiplication, which rounds every product. What the Python
  operations do beyond returning a number is written out: \<^verbatim>\<open>math.sqrt\<close> of a negative
  argument raises \<^verbatim>\<open>ValueError\<close>, float division by zero raises
  \<^verbatim>\<open>ZeroDivisionError\<close>, reading an unassigned local raises
  \<^verbatim>\<open>UnboundLocalError\<close>, an index past the end raises \<^verbatim>\<open>IndexError\<close>.
  The literals \<^verbatim>\<open>9.81\<close>, \<^verbatim>\<open>1e-8\<close>, ... are the decimal fractions they denote, and
  \<^verbatim>\<open>np.sign\<close> is \<open>sgn\<close>. \<^verbatim>\<open>math.tan\<close> raises nothing on a finite argument; at a real
  \<open>alpha\<close> with \<open>cos alpha = 0\<close>, which no float is, \<open>tan alpha\<close> is \<open>0\<close> in HOL, and
  the general branch of \<^verbatim>\<open>turn_coord_cons\<close> raises there through its division by
  \<open>cos alpha\<close>, so that value reaches no result.
\<close>

datatype py_error = ValueError | ZeroDivisionError | UnboundLocalError | IndexError

definition py_sqrt :: "real \<Rightarrow> py_error + real" where
  "py_sqrt v = (if v < 0 then Inl ValueError else Inr (sqrt v))"

definition py_div :: "real \<Rightarrow> real \<Rightarrow> py_error + real" where
  "py_div n d = (if d = 0 then Inl ZeroDivisionError else Inr (n / d))"

text \<open>
  \<^verbatim>\<open>turn_coord_cons(turn_rate, alpha, beta, TAS, gamma=0)\<close>, lines 142 to 165. The
  statements are evaluated in the order of the source, so the first failing operation
  decides the exception.
\<close>

definition turn_coord_cons :: "real \<Rightarrow> real \<Rightarrow> real \<Rightarrow> real \<Rightarrow> real \<Rightarrow> py_error + real" where
  "turn_coord_cons turn_rate alpha beta TAS gamma =
    (let g0 = 981 / 100;
         G = turn_rate * TAS / g0
     in if \<bar>gamma\<bar> < 1 / 10 ^ 8 then
          (case py_div (G * cos beta) (cos alpha - G * sin alpha * sin beta) of
             Inl e \<Rightarrow> Inl e
           | Inr phi \<Rightarrow> Inr (arctan phi))
        else
          (let a = 1 - G * tan alpha * sin beta
           in case py_div (sin gamma) (cos beta) of
                Inl e \<Rightarrow> Inl e
              | Inr b \<Rightarrow>
                  (let c = 1 + G\<^sup>2 * (cos beta)\<^sup>2
                   in case py_sqrt (c * (1 - b\<^sup>2) + G\<^sup>2 * (sin beta)\<^sup>2) of
                        Inl e \<Rightarrow> Inl e
                      | Inr sq \<Rightarrow>
                          (let num = (a - b\<^sup>2) + b * tan alpha * sq;
                               den = a\<^sup>2 - b\<^sup>2 * (1 + c * (tan alpha)\<^sup>2)
                           in case py_div (G * cos beta) (cos alpha) of
                                Inl e \<Rightarrow> Inl e
                              | Inr t \<Rightarrow>
                                  (case py_div (t * num) den of
                                     Inl e \<Rightarrow> Inl e
                                   | Inr u \<Rightarrow> Inr (arctan u))))))"

text \<open>\<^verbatim>\<open>rate_of_climb_cons(gamma, alpha, beta, phi)\<close>, lines 182 to 193.\<close>

definition rate_of_climb_cons :: "real \<Rightarrow> real \<Rightarrow> real \<Rightarrow> real \<Rightarrow> py_error + real" where
  "rate_of_climb_cons gamma alpha beta phi =
    (let a = cos alpha * cos beta;
         b = sin phi * sin beta + cos phi * sin alpha * cos beta
     in case py_sqrt (a\<^sup>2 - (sin gamma)\<^sup>2 + b\<^sup>2) of
          Inl e \<Rightarrow> Inl e
        | Inr sq \<Rightarrow>
            (case py_div (a * b + sin gamma * sq) (a\<^sup>2 - (sin gamma)\<^sup>2) of
               Inl e \<Rightarrow> Inl e
             | Inr theta \<Rightarrow> Inr (arctan theta)))"

section \<open>The collaborators the module imports\<close>

text \<open>
  \<^verbatim>\<open>least_squares\<close> (scipy), \<^verbatim>\<open>wind2body\<close>, \<^verbatim>\<open>atm\<close> and the default dynamics
  \<^verbatim>\<open>linear_and_angular_momentum_eqs\<close> are imported from other modules, and the aircraft
  is an object passed in by the caller. They are parameters of the model: the record
  \<open>env\<close> holds the four imported names, the record \<open>aircraft\<close> the two methods called.
  An exception raised by the residual function inside the optimizer propagates out of
  \<^verbatim>\<open>least_squares\<close>, so the optimizer returns an error or a result.
\<close>

type_synonym dyn_eqs =
  "real \<Rightarrow> real list \<Rightarrow> real \<Rightarrow> real list list \<Rightarrow> real list \<Rightarrow> real list \<Rightarrow> real list"

record opt_result =
  res_x :: "real list"
  res_fun :: "real list"
  res_cost :: real

record aircraft =
  get_forces_and_moments ::
    "real \<Rightarrow> real \<Rightarrow> real \<Rightarrow> real \<Rightarrow> real \<Rightarrow> real \<Rightarrow> real \<Rightarrow> real \<Rightarrow> real \<Rightarrow> real list
      \<Rightarrow> real list \<times> real list"
  mass_and_inertial_data :: "real \<times> real list list"

record env =
  least_squares ::
    "(real list \<Rightarrow> py_error + real list) \<Rightarrow> real list \<Rightarrow> int \<Rightarrow> real list \<times> real list
      \<Rightarrow> py_error + opt_result"
  wind2body :: "real list \<Rightarrow> real \<Rightarrow> real \<Rightarrow> real list"
  atm :: "real \<Rightarrow> real \<times> real \<times> real \<times> real"
  linear_and_angular_momentum_eqs :: dyn_eqs

text \<open>\<^verbatim>\<open>xs[i]\<close> for a constant index \<open>i \<ge> 0\<close>.\<close>

definition getitem :: "real list \<Rightarrow> nat \<Rightarrow> py_error + real" where
  "getitem xs i = (if i < length xs then Inr (xs ! i) else Inl IndexError)"

text \<open>
  Sequencing of two statements: an exception raised by the first one leaves the
  function, otherwise the second one runs with the value of the first.
\<close>

definition py_bind :: "py_error + 'a \<Rightarrow> ('a \<Rightarrow> py_error + 'b) \<Rightarrow> py_error + 'b" where
  "py_bind m f = (case m of Inl e \<Rightarrow> Inl e | Inr v \<Rightarrow> f v)"

section \<open>The residual function\<close>

text \<open>
  \<^verbatim>\<open>func(trimmed_params, h, TAS, gamma, turn_rate, aircraft, dynamic_eqs)\<close>, lines 196
  to 240.
\<close>

definition func ::
  "env \<Rightarrow> real list \<Rightarrow> real \<Rightarrow> real \<Rightarrow> real \<Rightarrow> real \<Rightarrow> aircraft \<Rightarrow> dyn_eqs \<Rightarrow> py_error + real list" where
  "func env trimmed_params h TAS gamma turn_rate aircraft dynamic_eqs =
    py_bind (getitem trimmed_params 0) (\<lambda>alpha.
    py_bind (getitem trimmed_params 1) (\<lambda>beta.
    py_bind (getitem trimmed_params 2) (\<lambda>delta_e.
    py_bind (getitem trimmed_params 3) (\<lambda>delta_ail.
    py_bind (getitem trimmed_params 4) (\<lambda>delta_r.
    py_bind (getitem trimmed_params 5) (\<lambda>delta_t.
    py_bind (if \<bar>turn_rate\<bar> < 1 / 10 ^ 8 then Inr 0
             else turn_coord_cons turn_rate alpha beta TAS gamma) (\<lambda>phi.
    py_bind (rate_of_climb_cons gamma alpha beta phi) (\<lambda>theta.
      (let p = - turn_rate * sin theta;
           q = turn_rate * sin phi * cos theta;
           r = turn_rate * cos theta * sin phi;
           ang_vel = [p, q, r];
           lin_vel = wind2body env [TAS, 0, 0] alpha beta;
           attitude = [theta, phi, 0];
           (t, pr, rho, a) = atm env h;
           (forces, moments) =
             get_forces_and_moments aircraft TAS rho alpha beta delta_e 0 delta_ail
               delta_r delta_t attitude;
           (mass, inertia) = mass_and_inertial_data aircraft;
           vel = lin_vel @ ang_vel;
           output = dynamic_eqs 0 vel mass inertia forces moments
       in Inr output)))))))))"

section \<open>The trim solver\<close>

text \<open>
  \<^verbatim>\<open>warn(message, category)\<close> appends to the warnings the call has issued; the default
  category is \<^verbatim>\<open>UserWarning\<close>. The warnings are part of the outcome of a call, next to
  the exception or the returned tuple.
\<close>

datatype warning = RuntimeWarning string | UserWarning string

text \<open>
  Lines 106 to 109: the convergence test and the two warnings. The throttle
  \<^verbatim>\<open>trimmed_params[5]\<close> is read inside the first \<^verbatim>\<open>if\<close> only, after the first
  warning has been issued.
\<close>

definition trim_warnings :: "real list \<Rightarrow> real list \<Rightarrow> real \<Rightarrow> warning list \<times> (py_error + unit)" where
  "trim_warnings trimmed_params fn cost =
    (if cost > 1 / 10 ^ 7 \<or> list_ex (\<lambda>v. \<bar>v\<bar> > 1 / 10 ^ 3) fn then
       (case getitem trimmed_params 5 of
          Inl e \<Rightarrow> ([RuntimeWarning ''Trim process did not converge''], Inl e)
        | Inr delta_t \<Rightarrow>
            if delta_t > 99 / 100 then
              ([RuntimeWarning ''Trim process did not converge'',
                UserWarning ''Probably not enough power for demanded conditions''], Inr ())
            else ([RuntimeWarning ''Trim process did not converge''], Inr ()))
     else ([], Inr ()))"

text \<open>
  The returned tuple
  \<^verbatim>\<open>(lin_vel, ang_vel, theta, phi, alpha, beta, control_vector)\<close>.
\<close>

type_synonym trim_result =
  "real list \<times> real list \<times> real \<times> real \<times> real \<times> real \<times> (real \<times> real \<times> real \<times> real)"

text \<open>Lines 111 to 139: the state rebuilt from the optimizer's final parameters.\<close>

definition trim_state :: "env \<Rightarrow> real \<Rightarrow> real \<Rightarrow> real \<Rightarrow> real list \<Rightarrow> py_error + trim_result" where
  "trim_state env TAS gamma turn_rate trimmed_params =
    py_bind (getitem trimmed_params 0) (\<lambda>alpha.
    py_bind (getitem trimmed_params 1) (\<lambda>beta.
    py_bind (getitem trimmed_params 2) (\<lambda>delta_e.
    py_bind (getitem trimmed_params 3) (\<lambda>delta_ail.
    py_bind (getitem trimmed_params 4) (\<lambda>delta_r.
    py_bind (getitem trimmed_params 5) (\<lambda>delta_t.
      (let control_vector = (delta_e, delta_ail, delta_r, delta_t)
       in py_bind (if \<bar>turn_rate\<bar> < 1 / 10 ^ 8 then Inr 0
                   else turn_coord_cons turn_rate alpha beta TAS gamma) (\<lambda>phi.
          py_bind (rate_of_climb_cons gamma alpha beta phi) (\<lambda>theta.
            (let p = - turn_rate * sin theta;
                 q = turn_rate * sin phi * cos theta;
                 r = turn_rate * cos theta * sin phi;
                 ang_vel = [p, q, r];
                 lin_vel = wind2body env [TAS, 0, 0] alpha beta
             in Inr (lin_vel, ang_vel, theta, phi, alpha, beta, control_vector)))))))))))"

text \<open>
  \<^verbatim>\<open>steady_state_flight_trim(aircraft, h, TAS, gamma=0, turn_rate=0, dyn_eqs=None,
  verbose=0)\<close>, lines 25 to 139. The local \<^verbatim>\<open>dynamic_eqs\<close> is assigned on the branch
  \<^verbatim>\<open>dyn_eqs is None\<close> only (lines 74 to 76), and is read when \<^verbatim>\<open>args\<close> is built
  (line 93): the local is \<open>Some\<close> when it is bound.
\<close>

definition steady_state_flight_trim ::
  "env \<Rightarrow> aircraft \<Rightarrow> real \<Rightarrow> real \<Rightarrow> real \<Rightarrow> real \<Rightarrow> dyn_eqs option \<Rightarrow> int
    \<Rightarrow> warning list \<times> (py_error + trim_result)" where
  "steady_state_flight_trim env aircraft h TAS gamma turn_rate dyn_eqs verbose =
    (let dynamic_eqs =
           (case dyn_eqs of None \<Rightarrow> Some (linear_and_angular_momentum_eqs env)
            | Some d \<Rightarrow> None);
         alpha_0 = 5 / 100 * sgn gamma;
         betha_0 = 1 / 1000 * sgn turn_rate;
         delta_e_0 = 5 / 100;
         delta_ail_0 = 1 / 100 * sgn turn_rate;
         delta_r_0 = 1 / 100 * sgn turn_rate;
         delta_t_0 = 1 / 2;
         initial_guess = [alpha_0, betha_0, delta_e_0, delta_ail_0, delta_r_0, delta_t_0]
     in case dynamic_eqs of
          None \<Rightarrow> ([], Inl UnboundLocalError)
        | Some dynamic_eqs' \<Rightarrow>
            (let lower_bounds = [-1, - (1 / 2), -1, -1, -1, 0];
                 upper_bounds = [1, 1 / 2, 1, 1, 1, 1]
             in case least_squares env
                       (\<lambda>x. func env x h TAS gamma turn_rate aircraft dynamic_eqs')
                       initial_guess verbose (lower_bounds, upper_bounds) of
                  Inl e \<Rightarrow> ([], Inl e)
                | Inr results \<Rightarrow>
                    (let trimmed_params = res_x results;
                         fn = res_fun results;
                         cost = res_cost results
                     in case trim_warnings trimmed_params fn cost of
                          (ws, Inl e) \<Rightarrow> (ws, Inl e)
                        | (ws, Inr u) \<Rightarrow>
                            (ws, trim_state env TAS gamma turn_rate trimmed_params))))"

text \<open>
  Lines 79 to 100 on their own: the call of \<^verbatim>\<open>least_squares\<close> that
  \<^verbatim>\<open>steady_state_flight_trim\<close> makes once \<^verbatim>\<open>dynamic_eqs\<close> is bound, with the
  residual function closed over \<^verbatim>\<open>args\<close>, the initial guess and the bounds.
\<close>

definition optimizer_call ::
  "env \<Rightarrow> aircraft \<Rightarrow> real \<Rightarrow> real \<Rightarrow> real \<Rightarrow> real \<Rightarrow> dyn_eqs \<Rightarrow> int \<Rightarrow> py_error + opt_result" where
  "optimizer_call env aircraft h TAS gamma turn_rate dynamic_eqs verbose =
    least_squares env (\<lambda>x. func env x h TAS gamma turn_rate aircraft dynamic_eqs)
      [5 / 100 * sgn gamma, 1 / 1000 * sgn turn_rate, 5 / 100, 1 / 100 * sgn turn_rate,
       1 / 100 * sgn turn_rate, 1 / 2]
      verbose ([-1, - (1 / 2), -1, -1, -1, 0], [1, 1 / 2, 1, 1, 1, 1])"

section \<open>The closed form and the domain of the closure formulas\<close>






section \<open>Binary64 multiplication\<close>







section \<open>Sample collaborators for concrete runs\<close>

text \<open>
  Concrete stand-ins for the imported collaborators, used where a property is checked
  on a concrete call. \<open>least_squares_stop step\<close> is an optimizer that stops at the
  point \<open>step x0\<close>: it evaluates the residual function there, and reports the point,
  the residual and the cost \<open>0.5 * sum(fun ** 2)\<close>, as scipy defines it. An exception of
  the residual function propagates.
\<close>

definition least_squares_stop ::
  "(real list \<Rightarrow> real list) \<Rightarrow> (real list \<Rightarrow> py_error + real list) \<Rightarrow> real list \<Rightarrow> int
    \<Rightarrow> real list \<times> real list \<Rightarrow> py_error + opt_result" where
  "least_squares_stop step f x0 verbose bounds =
    (case f (step x0) of
       Inl e \<Rightarrow> Inl e
     | Inr r \<Rightarrow> Inr \<lparr>res_x = step x0, res_fun = r, res_cost = (\<Sum>v\<leftarrow>r. v\<^sup>2) / 2\<rparr>)"

text \<open>The rotation of a wind-axes vector \<open>(V, 0, 0)\<close> into body axes.\<close>

definition wind2body_sample :: "real list \<Rightarrow> real \<Rightarrow> real \<Rightarrow> real list" where
  "wind2body_sample v alpha beta =
    [hd v * cos alpha * cos beta, hd v * sin beta, hd v * sin alpha * cos beta]"

text \<open>Two dynamics: accelerations from forces and moments, and a constant residual.\<close>

definition accel_eqs :: dyn_eqs where
  "accel_eqs t vel mass inertia forces moments = map (\<lambda>f. f / mass) forces @ moments"

definition offset_eqs :: dyn_eqs where
  "offset_eqs t vel mass inertia forces moments = [1, 0, 0, 0, 0, 0]"

definition sample_env :: "(real list \<Rightarrow> real list) \<Rightarrow> dyn_eqs \<Rightarrow> env" where
  "sample_env step dyn =
    \<lparr>least_squares = least_squares_stop step,
     wind2body = wind2body_sample,
     atm = (\<lambda>h. (28815 / 100, 101325, 1225 / 1000, 3403 / 10)),
     linear_and_angular_momentum_eqs = dyn\<rparr>"

text \<open>An aircraft on which no net force or moment acts.\<close>

definition sample_aircraft :: aircraft where
  "sample_aircraft =
    \<lparr>get_forces_and_moments =
       (\<lambda>TAS rho alpha beta delta_e delta_e_trim delta_ail delta_r delta_t attitude.
          ([0, 0, 0], [0, 0, 0])),
     mass_and_inertial_data = (1, [[1, 0, 0], [0, 1, 0], [0, 0, 1]])\<rparr>"

section \<open>Facts about the closure formulas\<close>


lemma cos_one_sq_less: "(cos (1::real))\<^sup>2 < (sin 1)\<^sup>2"
proof -
  have "cos (2::real) = (cos 1)\<^sup>2 - (sin 1)\<^sup>2"
    using cos_double [of "1::real"] by simp
  moreover have "cos (2::real) < 0" by (rule cos_two_less_zero)
  ultimately show ?thesis by linarith
qed



















section \<open>Facts about the trim solver\<close>

lemmas sample_defs = sample_env_def sample_aircraft_def least_squares_stop_def
  wind2body_sample_def accel_eqs_def offset_eqs_def

lemma trim_default_unfold:
  "steady_state_flight_trim env aircraft h TAS gamma turn_rate None verbose =
    (case optimizer_call env aircraft h TAS gamma turn_rate
            (linear_and_angular_momentum_eqs env) verbose of
       Inl e \<Rightarrow> ([], Inl e)
     | Inr results \<Rightarrow>
         (case trim_warnings (res_x results) (res_fun results) (res_cost results) of
            (ws, Inl e) \<Rightarrow> (ws, Inl e)
          | (ws, Inr u) \<Rightarrow> (ws, trim_state env TAS gamma turn_rate (res_x results))))"
  by (simp add: steady_state_flight_trim_def optimizer_call_def Let_def split: sum.splits)

lemma trim_supplied_unfold:
  "steady_state_flight_trim env aircraft h TAS gamma turn_rate (Some d) verbose =
     ([], Inl UnboundLocalError)"
  by (simp add: steady_state_flight_trim_def)

lemma trim_state_Inr:
  assumes "trim_state env TAS gamma turn_rate xs =
             Inr (lin_vel, ang_vel, theta, phi, alpha, beta, control_vector)"
  shows "6 \<le> length xs \<and> alpha = xs ! 0 \<and> beta = xs ! 1 \<and>
         control_vector = (xs ! 2, xs ! 3, xs ! 4, xs ! 5) \<and>
         (if \<bar>turn_rate\<bar> < 1 / 10 ^ 8 then phi = 0
          else turn_coord_cons turn_rate alpha beta TAS gamma = Inr phi) \<and>
         rate_of_climb_cons gamma alpha beta phi = Inr theta \<and>
         ang_vel = [- turn_rate * sin theta, turn_rate * sin phi * cos theta,
                    turn_rate * cos theta * sin phi] \<and>
         lin_vel = wind2body env [TAS, 0, 0] alpha beta"
  using assms
  by (auto simp: trim_state_def py_bind_def getitem_def Let_def split: sum.splits if_splits)

lemma trim_warnings_set:
  "set (fst (trim_warnings xs fn cost)) \<subseteq>
     {RuntimeWarning ''Trim process did not converge'',
      UserWarning ''Probably not enough power for demanded conditions''}"
  by (auto simp: trim_warnings_def getitem_def split: sum.splits if_splits)

lemma trim_warnings_runtime:
  "RuntimeWarning ''Trim process did not converge'' \<in> set (fst (trim_warnings xs fn cost)) \<longleftrightarrow>
     (cost > 1 / 10 ^ 7 \<or> (\<exists>v\<in>set fn. \<bar>v\<bar> > 1 / 10 ^ 3))"
  by (auto simp: trim_warnings_def getitem_def list_ex_iff split: sum.splits if_splits)

lemma trim_warnings_power:
  "UserWarning ''Probably not enough power for demanded conditions''
      \<in> set (fst (trim_warnings xs fn cost)) \<longleftrightarrow>
     (cost > 1 / 10 ^ 7 \<or> (\<exists>v\<in>set fn. \<bar>v\<bar> > 1 / 10 ^ 3)) \<and> 5 < length xs \<and> xs ! 5 > 99 / 100"
  by (auto simp: trim_warnings_def getitem_def list_ex_iff split: sum.splits if_splits)

lemma trim_fst:
  "optimizer_call env aircraft h TAS gamma turn_rate (linear_and_angular_momentum_eqs env) verbose
     = Inr results \<Longrightarrow>
   fst (steady_state_flight_trim env aircraft h TAS gamma turn_rate None verbose) =
     fst (trim_warnings (res_x results) (res_fun results) (res_cost results))"
  by (simp add: trim_default_unfold split: prod.splits sum.splits)


lemma trim_returns:
  assumes "steady_state_flight_trim env aircraft h TAS gamma turn_rate dyn_eqs verbose =
             (ws, Inr res)"
  shows "\<exists>results.
           optimizer_call env aircraft h TAS gamma turn_rate
             (linear_and_angular_momentum_eqs env) verbose = Inr results \<and>
           trim_state env TAS gamma turn_rate (res_x results) = Inr res"
proof (cases dyn_eqs)
  case (Some d)
  with assms show ?thesis by (simp add: trim_supplied_unfold)
next
  case None
  with assms show ?thesis
    by (auto simp: trim_default_unfold split: sum.splits prod.splits)
qed

lemmas run_defs = steady_state_flight_trim_def optimizer_call_def trim_warnings_def
  trim_state_def func_def py_bind_def getitem_def turn_coord_cons_def rate_of_climb_cons_def
  py_div_def py_sqrt_def Let_def

text \<open>A concrete run in a coordinated turn with \<open>G = 1\<close>.\<close>

lemma turn_run:
  "steady_state_flight_trim (sample_env (\<lambda>x. x[1 := 0]) accel_eqs) sample_aircraft
     1000 100 0 (981 / 10000) None 0 =
     ([], Inr ([100, 0, 0],
               [0, 981 / 10000 * (sqrt 2 / 2), 981 / 10000 * (sqrt 2 / 2)],
               0, pi / 4, 0, 0, (1 / 20, 1 / 100, 1 / 100, 1 / 2)))"
  by (simp add: run_defs sample_defs arctan_one sin_45 cos_45)

text \<open>
  Claim C9: a call of \<^verbatim>\<open>steady_state_flight_trim\<close> that supplies \<^verbatim>\<open>dyn_eqs\<close> fails with
  \<^verbatim>\<open>UnboundLocalError\<close> whatever the optimizer and the residual function are, so before
  any residual evaluation: \<^verbatim>\<open>dynamic_eqs\<close> is assigned on the \<^verbatim>\<open>dyn_eqs is None\<close>
  branch only. A call that returns a result is a call without \<^verbatim>\<open>dyn_eqs\<close>.
\<close>

theorem supplied_dynamics_unbound_local:
  "(dyn_eqs \<noteq> None \<longrightarrow>
      steady_state_flight_trim env aircraft h TAS gamma turn_rate dyn_eqs verbose =
        ([], Inl UnboundLocalError)) \<and>
   (steady_state_flight_trim env aircraft h TAS gamma turn_rate dyn_eqs verbose =
      (ws, Inr res) \<longrightarrow> dyn_eqs = None)"
  by (cases dyn_eqs) (simp_all add: trim_supplied_unfold)

theorem supplied_dynamics_unbound_local_witness:
  "Some accel_eqs \<noteq> None \<and>
   steady_state_flight_trim (sample_env id accel_eqs) sample_aircraft 1000 100 0 0
     (Some accel_eqs) 0 = ([], Inl UnboundLocalError) \<and>
   steady_state_flight_trim (sample_env id accel_eqs) sample_aircraft 1000 100 0 0 None 0 =
     ([], Inr ([100, 0, 0], [0, 0, 0], 0, 0, 0, 0, (1 / 20, 0, 0, 1 / 2)))"
proof -
  have r: "steady_state_flight_trim (sample_env id accel_eqs) sample_aircraft 1000 100 0 0
             None 0 = ([], Inr ([100, 0, 0], [0, 0, 0], 0, 0, 0, 0, (1 / 20, 0, 0, 1 / 2)))"
    by (simp add: run_defs sample_defs)
  show ?thesis
    using r
      supplied_dynamics_unbound_local [of "Some accel_eqs" "sample_env id accel_eqs"
        sample_aircraft 1000 100 0 0 0 "[]"
        "([100, 0, 0], [0, 0, 0], 0, 0, 0, 0, (1 / 20, 0, 0, 1 / 2))"]
      supplied_dynamics_unbound_local [of None "sample_env id accel_eqs"
        sample_aircraft 1000 100 0 0 0 "[]"
        "([100, 0, 0], [0, 0, 0], 0, 0, 0, 0, (1 / 20, 0, 0, 1 / 2))"]
    by simp
qed

text \<open>
  Claim C4, as stated, fails: the dynamics are not a mandatory input. The same call
  without \<^verbatim>\<open>dyn_eqs\<close> is accepted under two module defaults, and its outcome follows
  the default: no warning with \<open>accel_eqs\<close>, the convergence warning with
  \<open>offset_eqs\<close>.
\<close>

theorem implicit_default_dynamics_counterexample:
  "steady_state_flight_trim (sample_env id accel_eqs) sample_aircraft 1000 100 0 0 None 0 =
     ([], Inr ([100, 0, 0], [0, 0, 0], 0, 0, 0, 0, (1 / 20, 0, 0, 1 / 2))) \<and>
   steady_state_flight_trim (sample_env id offset_eqs) sample_aircraft 1000 100 0 0 None 0 =
     ([RuntimeWarning ''Trim process did not converge''],
      Inr ([100, 0, 0], [0, 0, 0], 0, 0, 0, 0, (1 / 20, 0, 0, 1 / 2)))"
  by (simp add: run_defs sample_defs)

text \<open>
  Claim C4, amended: the dynamics equations are an optional input; when \<^verbatim>\<open>dyn_eqs\<close> is
  omitted, the solve is the optimizer call whose residual function is closed over the
  module default \<^verbatim>\<open>linear_and_angular_momentum_eqs\<close>, followed by the warnings and
  the state reconstruction.
\<close>

theorem omitted_dynamics_uses_default:
  "steady_state_flight_trim env aircraft h TAS gamma turn_rate None verbose =
    (case optimizer_call env aircraft h TAS gamma turn_rate
            (linear_and_angular_momentum_eqs env) verbose of
       Inl e \<Rightarrow> ([], Inl e)
     | Inr results \<Rightarrow>
         (case trim_warnings (res_x results) (res_fun results) (res_cost results) of
            (ws, Inl e) \<Rightarrow> (ws, Inl e)
          | (ws, Inr u) \<Rightarrow> (ws, trim_state env TAS gamma turn_rate (res_x results))))"
  by (rule trim_default_unfold)

text \<open>
  Claim C1, as stated, fails: a call with \<open>TAS = 0\<close> is not rejected. The optimizer
  runs, the residual function is evaluated, and the call returns a result.
\<close>

theorem nonpositive_TAS_counterexample:
  "steady_state_flight_trim (sample_env id accel_eqs) sample_aircraft 1000 0 0 0 None 0 =
     ([], Inr ([0, 0, 0], [0, 0, 0], 0, 0, 0, 0, (1 / 20, 0, 0, 1 / 2)))"
  by (simp add: run_defs sample_defs)

text \<open>
  Claim C1, amended: \<^verbatim>\<open>steady_state_flight_trim\<close> does not check \<open>TAS\<close>. A call with
  \<open>TAS \<le> 0\<close> and \<^verbatim>\<open>dyn_eqs\<close> omitted invokes \<^verbatim>\<open>least_squares\<close> with that \<open>TAS\<close>; it
  fails only when the optimizer call raises, or when, after the optimizer has returned,
  the warning step or the state reconstruction raises, and it returns a result when none
  of them raises.
\<close>

theorem nonpositive_TAS_not_rejected:
  assumes "TAS \<le> 0"
  shows "(steady_state_flight_trim env aircraft h TAS gamma turn_rate None verbose = (ws, Inl e) \<longrightarrow>
            optimizer_call env aircraft h TAS gamma turn_rate
              (linear_and_angular_momentum_eqs env) verbose = Inl e \<or>
            (\<exists>results. optimizer_call env aircraft h TAS gamma turn_rate
                (linear_and_angular_momentum_eqs env) verbose = Inr results \<and>
              (trim_warnings (res_x results) (res_fun results) (res_cost results) = (ws, Inl e) \<or>
               trim_state env TAS gamma turn_rate (res_x results) = Inl e))) \<and>
         (optimizer_call env aircraft h TAS gamma turn_rate
              (linear_and_angular_momentum_eqs env) verbose = Inr results \<and>
          trim_warnings (res_x results) (res_fun results) (res_cost results) = (ws', Inr ()) \<and>
          trim_state env TAS gamma turn_rate (res_x results) = Inr res \<longrightarrow>
            steady_state_flight_trim env aircraft h TAS gamma turn_rate None verbose =
              (ws', Inr res))"
  by (auto simp: trim_default_unfold split: sum.splits prod.splits)

theorem nonpositive_TAS_not_rejected_witness:
  "(- 50 :: real) \<le> 0 \<and>
   steady_state_flight_trim (sample_env (\<lambda>x. x[0 := 0, 1 := 1]) accel_eqs) sample_aircraft
     1000 (- 50) 1 0 None 0 = ([], Inl ValueError) \<and>
   optimizer_call (sample_env (\<lambda>x. x[0 := 0, 1 := 1]) accel_eqs) sample_aircraft
     1000 (- 50) 1 0 accel_eqs 0 = Inl ValueError \<and>
   optimizer_call (sample_env id accel_eqs) sample_aircraft 1000 (- 50) 0 0 accel_eqs 0 =
     Inr \<lparr>res_x = [0, 0, 1 / 20, 0, 0, 1 / 2], res_fun = [0, 0, 0, 0, 0, 0], res_cost = 0\<rparr> \<and>
   steady_state_flight_trim (sample_env id accel_eqs) sample_aircraft 1000 (- 50) 0 0 None 0 =
     ([], Inr ([- 50, 0, 0], [0, 0, 0], 0, 0, 0, 0, (1 / 20, 0, 0, 1 / 2)))"
proof -
  have t: "(- 50 :: real) \<le> 0" by simp
  have r: "(cos (1::real))\<^sup>2 - (sin 1)\<^sup>2 < 0"
    using cos_one_sq_less by simp
  have f: "steady_state_flight_trim (sample_env (\<lambda>x. x[0 := 0, 1 := 1]) accel_eqs)
             sample_aircraft 1000 (- 50) 1 0 None 0 = ([], Inl ValueError)"
    using r by (simp add: run_defs sample_defs)
  have o: "optimizer_call (sample_env (\<lambda>x. x[0 := 0, 1 := 1]) accel_eqs) sample_aircraft
             1000 (- 50) 1 0 accel_eqs 0 = Inl ValueError"
    using r by (simp add: run_defs sample_defs)
  have c: "optimizer_call (sample_env id accel_eqs) sample_aircraft 1000 (- 50) 0 0 accel_eqs 0 =
     Inr \<lparr>res_x = [0, 0, 1 / 20, 0, 0, 1 / 2], res_fun = [0, 0, 0, 0, 0, 0], res_cost = 0\<rparr>"
    by (simp add: run_defs sample_defs)
  have w: "trim_warnings [0, 0, 1 / 20, 0, 0, 1 / 2] [0, 0, 0, 0, 0, 0] 0 = ([], Inr ())"
    by (simp add: trim_warnings_def)
  have s: "trim_state (sample_env id accel_eqs) (- 50) 0 0 [0, 0, 1 / 20, 0, 0, 1 / 2] =
             Inr ([- 50, 0, 0], [0, 0, 0], 0, 0, 0, 0, (1 / 20, 0, 0, 1 / 2))"
    by (simp add: run_defs sample_defs)
  have g: "steady_state_flight_trim (sample_env id accel_eqs) sample_aircraft 1000 (- 50) 0 0
             None 0 = ([], Inr ([- 50, 0, 0], [0, 0, 0], 0, 0, 0, 0, (1 / 20, 0, 0, 1 / 2)))"
    using nonpositive_TAS_not_rejected [OF t, of "sample_env id accel_eqs" sample_aircraft 1000
        0 0 0 "[]" ValueError
        "\<lparr>res_x = [0, 0, 1 / 20, 0, 0, 1 / 2], res_fun = [0, 0, 0, 0, 0, 0], res_cost = 0\<rparr>"
        "[]" "([- 50, 0, 0], [0, 0, 0], 0, 0, 0, 0, (1 / 20, 0, 0, 1 / 2))"] c w s
    by (simp add: sample_env_def)
  show ?thesis using t f o c g by simp
qed

text \<open>
  Claim C2, as stated, fails: a solve that ends with throttle \<open>1 > 0.99\<close>, cost \<open>0\<close> and
  a zero residual issues no warning at all, so no insufficient-power diagnostic.
\<close>

theorem power_warning_counterexample:
  "steady_state_flight_trim (sample_env (\<lambda>x. x[5 := 1]) accel_eqs) sample_aircraft
     1000 100 0 0 None 0 =
     ([], Inr ([100, 0, 0], [0, 0, 0], 0, 0, 0, 0, (1 / 20, 0, 0, 1)))"
  by (simp add: run_defs sample_defs)

text \<open>
  Claim C2, amended: when the optimizer returns, the insufficient-power warning is issued
  exactly when the convergence condition holds (final cost \<open>> 1e-7\<close> or some residual
  component of magnitude \<open>> 1e-3\<close>) and the resolved throttle \<^verbatim>\<open>trimmed_params[5]\<close>
  exceeds \<open>0.99\<close>; the convergence warning is issued exactly when the convergence
  condition holds. The power warning never occurs without the convergence warning.
\<close>

theorem power_warning_requires_nonconvergence:
  assumes "optimizer_call env aircraft h TAS gamma turn_rate
             (linear_and_angular_momentum_eqs env) verbose = Inr results"
  shows "(UserWarning ''Probably not enough power for demanded conditions''
            \<in> set (fst (steady_state_flight_trim env aircraft h TAS gamma turn_rate None verbose))
          \<longleftrightarrow> (res_cost results > 1 / 10 ^ 7 \<or> (\<exists>v\<in>set (res_fun results). \<bar>v\<bar> > 1 / 10 ^ 3)) \<and>
              5 < length (res_x results) \<and> res_x results ! 5 > 99 / 100) \<and>
         (RuntimeWarning ''Trim process did not converge''
            \<in> set (fst (steady_state_flight_trim env aircraft h TAS gamma turn_rate None verbose))
          \<longleftrightarrow> (res_cost results > 1 / 10 ^ 7 \<or> (\<exists>v\<in>set (res_fun results). \<bar>v\<bar> > 1 / 10 ^ 3)))"
  using trim_fst [OF assms] by (simp only: trim_warnings_power trim_warnings_runtime simp_thms)

theorem power_warning_requires_nonconvergence_witness:
  "optimizer_call (sample_env (\<lambda>x. x[5 := 1]) offset_eqs) sample_aircraft 1000 100 0 0
     (linear_and_angular_momentum_eqs (sample_env (\<lambda>x. x[5 := 1]) offset_eqs)) 0 =
     Inr \<lparr>res_x = [0, 0, 1 / 20, 0, 0, 1], res_fun = [1, 0, 0, 0, 0, 0], res_cost = 1 / 2\<rparr> \<and>
   UserWarning ''Probably not enough power for demanded conditions''
     \<in> set (fst (steady_state_flight_trim (sample_env (\<lambda>x. x[5 := 1]) offset_eqs)
                    sample_aircraft 1000 100 0 0 None 0)) \<and>
   RuntimeWarning ''Trim process did not converge''
     \<in> set (fst (steady_state_flight_trim (sample_env (\<lambda>x. x[5 := 1]) offset_eqs)
                    sample_aircraft 1000 100 0 0 None 0))"
proof -
  have c: "optimizer_call (sample_env (\<lambda>x. x[5 := 1]) offset_eqs) sample_aircraft 1000 100 0 0
     (linear_and_angular_momentum_eqs (sample_env (\<lambda>x. x[5 := 1]) offset_eqs)) 0 =
     Inr \<lparr>res_x = [0, 0, 1 / 20, 0, 0, 1], res_fun = [1, 0, 0, 0, 0, 0], res_cost = 1 / 2\<rparr>"
    by (simp add: run_defs sample_defs)
  show ?thesis
    using c power_warning_requires_nonconvergence [OF c] by simp
qed

text \<open>
  Claim C7: in every returned result, \<open>alpha\<close>, \<open>beta\<close> and the control vector are the six
  entries of the optimizer's final point, \<open>phi\<close> is \<open>0\<close> when \<open>\<bar>turn_rate\<bar> < 1e-8\<close> and
  otherwise the value \<^verbatim>\<open>turn_coord_cons\<close> returns on \<open>turn_rate, alpha, beta, TAS, gamma\<close>,
  and \<open>theta\<close> is the value \<^verbatim>\<open>rate_of_climb_cons\<close> returns on \<open>gamma, alpha, beta, phi\<close>.
\<close>

theorem result_angles_from_closure:
  assumes "steady_state_flight_trim env aircraft h TAS gamma turn_rate dyn_eqs verbose =
             (ws, Inr (lin_vel, ang_vel, theta, phi, alpha, beta, control_vector))"
  shows "\<exists>results.
           optimizer_call env aircraft h TAS gamma turn_rate
             (linear_and_angular_momentum_eqs env) verbose = Inr results \<and>
           6 \<le> length (res_x results) \<and>
           alpha = res_x results ! 0 \<and> beta = res_x results ! 1 \<and>
           control_vector =
             (res_x results ! 2, res_x results ! 3, res_x results ! 4, res_x results ! 5) \<and>
           (if \<bar>turn_rate\<bar> < 1 / 10 ^ 8 then phi = 0
            else turn_coord_cons turn_rate alpha beta TAS gamma = Inr phi) \<and>
           rate_of_climb_cons gamma alpha beta phi = Inr theta"
proof -
  from trim_returns [OF assms] obtain results :: opt_result where
    o: "optimizer_call env aircraft h TAS gamma turn_rate
          (linear_and_angular_momentum_eqs env) verbose = Inr results" and
    s: "trim_state env TAS gamma turn_rate (res_x results) =
          Inr (lin_vel, ang_vel, theta, phi, alpha, beta, control_vector)"
    by blast
  from trim_state_Inr [OF s] o show ?thesis by blast
qed

theorem result_angles_from_closure_witness:
  "steady_state_flight_trim (sample_env (\<lambda>x. x[1 := 0]) accel_eqs) sample_aircraft
     1000 100 0 (981 / 10000) None 0 =
     ([], Inr ([100, 0, 0],
               [0, 981 / 10000 * (sqrt 2 / 2), 981 / 10000 * (sqrt 2 / 2)],
               0, pi / 4, 0, 0, (1 / 20, 1 / 100, 1 / 100, 1 / 2))) \<and>
   turn_coord_cons (981 / 10000) 0 0 100 0 = Inr (pi / 4) \<and>
   rate_of_climb_cons 0 0 0 (pi / 4) = Inr 0"
proof -
  have n: "\<not> \<bar>981 / 10000 :: real\<bar> < 1 / 10 ^ 8" by simp
  from result_angles_from_closure [OF turn_run] n
  have "turn_coord_cons (981 / 10000) 0 0 100 0 = Inr (pi / 4) \<and>
        rate_of_climb_cons 0 0 0 (pi / 4) = Inr 0"
    by (auto simp only: if_False)
  with turn_run show ?thesis by (simp only: simp_thms)
qed

section \<open>Facts about binary64 products\<close>
















end
